theory Spec2Isabelle
  imports Complex_Main "HOL-Library.Word"
begin

section \<open>World happiness map: data model\<close>

text \<open>
  The model follows the newest of the three revisions of the page script (the one with the
  event timeline and the period comparison chart). The revision before it has the same
  \<open>loadData\<close>, \<open>drawMap\<close> and row selection of \<open>showCountryPanel\<close>. The oldest revision has
  the same \<open>drawMap\<close> and the same two name lookups; its \<open>loadData\<close> differs in how a feature
  gets its code and is modelled as \<open>loadData_first\<close>.

  A JavaScript string is a sequence of UTF-16 code units. Numbers read from the
  table are taken as already parsed: \<open>Year\<close> and \<open>Rank\<close> cells are integers, the ladder
  score and the six factors are \<open>null\<close> or a number, and sums and quotients of numbers are
  exact (type \<open>real\<close>).
\<close>

type_synonym jsstring = "16 word list"

datatype factorKey = Gdp | Social | Healthy | Freedom | Generosity | Corruption

definition factorKeys :: "factorKey list" where
  "factorKeys = [Gdp, Social, Healthy, Freedom, Generosity, Corruption]"

text \<open>A row of the table as the row converter of \<open>d3.dsv\<close> leaves it, \<open>iso3\<close> added later.\<close>

record row =
  country :: "jsstring option"
  iso3 :: "jsstring option"
  year :: int
  rank :: int
  ladder :: "real option"
  factors :: "factorKey \<Rightarrow> real option"

text \<open>A cell record before the converter ran: the name cell is absent or a string.\<close>

record rawrow =
  rawName :: "jsstring option"
  rawYear :: int
  rawRank :: int
  rawLadder :: "real option"
  rawFactors :: "factorKey \<Rightarrow> real option"

record feature =
  name :: "jsstring option"
  iso_a3 :: "jsstring option"

subsection \<open>Strings\<close>

text \<open>\<open>String.prototype.trim\<close> removes white space and line terminators at both ends.\<close>

definition isWhite :: "16 word \<Rightarrow> bool" where
  "isWhite c \<longleftrightarrow> c \<in> set [0x09, 0x0A, 0x0B, 0x0C, 0x0D, 0x20, 0xA0, 0x1680,
      0x2000, 0x2001, 0x2002, 0x2003, 0x2004, 0x2005, 0x2006, 0x2007, 0x2008, 0x2009, 0x200A,
      0x2028, 0x2029, 0x202F, 0x205F, 0x3000, 0xFEFF]"

definition trim :: "jsstring \<Rightarrow> jsstring" where
  "trim s = rev (dropWhile isWhite (rev (dropWhile isWhite s)))"

text \<open>\<open>name.replace(/\./g,'')\<close>, then the replacement of every character of the class that
  holds U+2019 and U+0027 by U+0027: every full stop is removed, and the right single
  quotation mark becomes the apostrophe.\<close>

definition normalizeName :: "jsstring \<Rightarrow> jsstring" where
  "normalizeName n = map (\<lambda>c. if c = 0x2019 \<or> c = 0x27 then 0x27 else c) (filter (\<lambda>c. c \<noteq> 0x2E) n)"

text \<open>Truthiness of a value that is \<open>undefined\<close>, \<open>null\<close> or a string, and \<open>a || b\<close> on such values.\<close>

definition truthy :: "jsstring option \<Rightarrow> bool" where
  "truthy v = (case v of None \<Rightarrow> False | Some s \<Rightarrow> s \<noteq> [])"

definition jsOr :: "jsstring option \<Rightarrow> jsstring option \<Rightarrow> jsstring option" where
  "jsOr a b = (if truthy a then a else b)"

subsection \<open>Name reconciliation in \<open>loadData\<close>\<close>

text \<open>
  The dictionary \<open>countryToISO3\<close> of \<open>isoMap.js\<close> is a parameter: a finite table from names to
  codes, read by property access (names of inherited object properties are not table keys
  and are left out of the model).
\<close>

type_synonym isoMap = "jsstring \<rightharpoonup> jsstring"

text \<open>\<open>f.properties.name ? f.properties.name.trim() : null\<close>, the same for the table's name cell.\<close>

definition trimName :: "jsstring option \<Rightarrow> jsstring option" where
  "trimName raw = (case raw of None \<Rightarrow> None | Some s \<Rightarrow> if s \<noteq> [] then Some (trim s) else None)"

text \<open>Polygon features: \<open>name ? (dict[name] || dict[normalised name]) : null\<close>, then \<open>iso || null\<close>.\<close>

definition resolveGeo :: "isoMap \<Rightarrow> jsstring option \<Rightarrow> jsstring option" where
  "resolveGeo countryToISO3 raw =
     (let iso = (case trimName raw of
                   None \<Rightarrow> None
                 | Some nm \<Rightarrow> if nm \<noteq> [] then jsOr (countryToISO3 nm) (countryToISO3 (normalizeName nm))
                             else None)
      in jsOr iso None)"

text \<open>Table rows: \<open>d.country ? countryToISO3[d.country] || null : null\<close>.\<close>

definition resolveCsv :: "isoMap \<Rightarrow> jsstring option \<Rightarrow> jsstring option" where
  "resolveCsv countryToISO3 c =
     (case c of None \<Rightarrow> None
      | Some nm \<Rightarrow> if nm \<noteq> [] then jsOr (countryToISO3 nm) None else None)"

definition convertRow :: "rawrow \<Rightarrow> row" where
  "convertRow d = \<lparr> country = trimName (rawName d), iso3 = None, year = rawYear d,
      rank = rawRank d, ladder = rawLadder d, factors = rawFactors d \<rparr>"

subsection \<open>Library functions of d3\<close>

text \<open>
  \<open>d3.group(values, keyof)\<close>: one pass over the values; a value joins the group stored
  under its key, or opens a new group holding just that value.
\<close>

definition d3_group :: "('a \<Rightarrow> 'k) \<Rightarrow> 'a list \<Rightarrow> ('k \<rightharpoonup> 'a list)" where
  "d3_group keyof vs =
     foldl (\<lambda>groups v. case groups (keyof v) of
                          Some grp \<Rightarrow> groups(keyof v \<mapsto> grp @ [v])
                        | None \<Rightarrow> groups(keyof v \<mapsto> [v]))
           Map.empty vs"

text \<open>\<open>d3.max\<close> and \<open>d3.mean\<close> over accessor results: \<open>null\<close> results are skipped, and the result
  is \<open>undefined\<close> (here \<open>None\<close>) when nothing was counted.\<close>

definition d3_max :: "real option list \<Rightarrow> real option" where
  "d3_max vs =
     foldl (\<lambda>m v. case v of None \<Rightarrow> m
                   | Some x \<Rightarrow> (case m of None \<Rightarrow> Some x
                                | Some y \<Rightarrow> if y < x then Some x else Some y))
           None vs"

definition d3_mean :: "real option list \<Rightarrow> real option" where
  "d3_mean vs =
     (let cs = foldl (\<lambda>(count, total) v. case v of None \<Rightarrow> (count, total)
                                            | Some x \<Rightarrow> (count + 1, total + x))
                     (0::nat, 0::real) vs
      in if fst cs \<noteq> 0 then Some (snd cs / real (fst cs)) else None)"

subsection \<open>\<open>loadData\<close>\<close>

record loaded =
  world :: "feature list"
  filtered :: "row list"
  groups :: "jsstring option \<rightharpoonup> row list"
  factorMax :: "factorKey \<Rightarrow> real"

text \<open>\<open>d3.max(filtered, d => d[f.key] ?? 0) || 1\<close>: the accessor \<open>d => d[f.key] ?? 0\<close> over the
  rows first, then the maximum, with \<open>undefined\<close> and 0 replaced by 1.\<close>

definition zeroed :: "row list \<Rightarrow> factorKey \<Rightarrow> real list" where
  "zeroed rs k = map (\<lambda>d. case factors d k of None \<Rightarrow> 0 | Some v \<Rightarrow> v) rs"

definition factorMaxOf :: "row list \<Rightarrow> factorKey \<Rightarrow> real" where
  "factorMaxOf rs k =
     (case d3_max (map Some (zeroed rs k)) of
        None \<Rightarrow> 1
      | Some m \<Rightarrow> if m \<noteq> 0 then m else 1)"

definition loadData :: "isoMap \<Rightarrow> rawrow list \<Rightarrow> feature list \<Rightarrow> loaded" where
  "loadData countryToISO3 csv geo =
     (let happiness = map convertRow csv;
          features = map (\<lambda>f. f\<lparr>iso_a3 := resolveGeo countryToISO3 (name f)\<rparr>) geo;
          happiness = map (\<lambda>d. d\<lparr>iso3 := resolveCsv countryToISO3 (country d)\<rparr>) happiness;
          geoISOSet = filter truthy (map iso_a3 features);
          kept = filter (\<lambda>d. truthy (iso3 d) \<and> iso3 d \<in> set geoISOSet) happiness
      in \<lparr> world = features, filtered = kept, groups = d3_group iso3 kept,
           factorMax = factorMaxOf kept \<rparr>)"

text \<open>
  The oldest revision: \<open>if (iso) feature.properties.iso_a3 = iso\<close>, so a feature whose name
  does not resolve keeps the code it came with. The rows are retained by the same filter;
  the result is the features and the retained rows (this revision reads no factors and
  builds no index, and only the names, the codes and the retained rows are modelled).
\<close>

definition loadData_first :: "isoMap \<Rightarrow> rawrow list \<Rightarrow> feature list
                              \<Rightarrow> feature list \<times> row list" where
  "loadData_first countryToISO3 csv geo =
     (let features = map (\<lambda>f. let iso = resolveGeo countryToISO3 (name f)
                                in if truthy iso then f\<lparr>iso_a3 := iso\<rparr> else f) geo;
          happiness = map (\<lambda>d. d\<lparr>iso3 := resolveCsv countryToISO3 (country d)\<rparr>)
                        (map convertRow csv);
          geoISOSet = filter truthy (map iso_a3 features);
          filteredHappiness = filter (\<lambda>d. truthy (iso3 d) \<and> iso3 d \<in> set geoISOSet) happiness
      in (features, filteredHappiness))"

subsection \<open>Globals and rendered content\<close>

text \<open>
  The event log maps a country code to an object from year to texts; the object is given by
  its entries in \<open>Object.entries\<close> order, the year keys read as integers.
\<close>

type_synonym eventLog = "jsstring \<rightharpoonup> (int \<times> jsstring list) list"

record env =
  worldData :: "feature list"
  happinessData :: "row list"
  byISO :: "jsstring option \<rightharpoonup> row list"
  factorMaxByKey :: "factorKey \<Rightarrow> real"
  eventsData :: eventLog

definition initEnv :: "loaded \<Rightarrow> eventLog \<Rightarrow> env" where
  "initEnv l ev = \<lparr> worldData = world l, happinessData = filtered l, byISO = groups l,
      factorMaxByKey = factorMax l, eventsData = ev \<rparr>"

datatype fill = Neutral | ColorScale int

datatype period = PreCovid | PostCovid

text \<open>The chart container: cleared and not drawn yet, the "no data" paragraph, or one bar for
  each period that has an average.\<close>

datatype covidView = Blank | NoData | Bars "(period \<times> real) list"

record eventBlock =
  blockYear :: int
  active :: bool
  texts :: "(jsstring \<times> bool) list"

datatype historyView = NoEventsNote | Blocks "eventBlock list"

record factorBar =
  barKey :: factorKey
  barValue :: real
  barMax :: real
  barWidth :: real

record panel =
  title :: "jsstring option"
  ladderToday :: "real option"
  sparkRows :: "row list"
  sparkDot :: "row option"
  emptyNoteHidden :: bool
  factorBars :: "factorBar list"
  covidChart :: covidView
  history :: historyView

record view =
  sliderValue :: int
  selectedISO :: "jsstring option"
  yearLabel :: "int option"
  mapFills :: "fill list"
  detail :: panel

datatype jserror = TypeError

subsection \<open>\<open>drawMap\<close>\<close>

text \<open>\<open>new Map(happinessData.filter(d => d.year === year).map(d => [d.iso3, d.rank]))\<close>: a later
  pair replaces an earlier one with the same key.\<close>

definition yearData :: "row list \<Rightarrow> int \<Rightarrow> (jsstring option \<rightharpoonup> int)" where
  "yearData rs y = map_of (rev (map (\<lambda>d. (iso3 d, rank d)) (filter (\<lambda>d. year d = y) rs)))"

text \<open>\<open>rank ? colorScale(rank) : "#1e293b"\<close>, one fill for each feature.\<close>

definition fillOf :: "(jsstring option \<rightharpoonup> int) \<Rightarrow> feature \<Rightarrow> fill" where
  "fillOf yd f = (case yd (iso_a3 f) of None \<Rightarrow> Neutral
                  | Some r \<Rightarrow> if r \<noteq> 0 then ColorScale r else Neutral)"

definition drawMap :: "env \<Rightarrow> int \<Rightarrow> fill list" where
  "drawMap e y = map (fillOf (yearData (happinessData e) y)) (worldData e)"

subsection \<open>\<open>drawCovidComparison\<close>\<close>

definition preAvg :: "row list \<Rightarrow> real option" where
  "preAvg rows = (let preYears = filter (\<lambda>r. 2015 \<le> year r \<and> year r \<le> 2019) rows
                  in if preYears \<noteq> [] then d3_mean (map ladder preYears) else None)"

definition postAvg :: "row list \<Rightarrow> real option" where
  "postAvg rows = (let postYears = filter (\<lambda>r. 2020 \<le> year r) rows
                   in if postYears \<noteq> [] then d3_mean (map ladder postYears) else None)"

definition drawCovidComparison :: "row list \<Rightarrow> covidView" where
  "drawCovidComparison rows =
     (if preAvg rows = None \<and> postAvg rows = None then NoData
      else Bars (List.map_filter (\<lambda>(p, v). map_option (Pair p) v)
                   [(PreCovid, preAvg rows), (PostCovid, postAvg rows)]))"

subsection \<open>\<open>showCountryPanel\<close>\<close>

text \<open>\<open>rows.find(r => r.year === year) || rows.slice().reverse().find(r => r.year <= year)
  || rows[rows.length - 1]\<close>; a row object is truthy, an index past the end reads
  \<open>undefined\<close>.\<close>

definition pickRow :: "row list \<Rightarrow> int \<Rightarrow> row option" where
  "pickRow rows y =
     (case find (\<lambda>r. year r = y) rows of
        Some r \<Rightarrow> Some r
      | None \<Rightarrow> (case find (\<lambda>r. year r \<le> y) (rev rows) of
                   Some r \<Rightarrow> Some r
                 | None \<Rightarrow> (if rows = [] then None else Some (last rows))))"

text \<open>The rows of a country, sorted by the stable \<open>sort\<close> with \<open>d3.ascending\<close> on the year.\<close>

definition sortedRows :: "row list \<Rightarrow> row list" where
  "sortedRows rs = sort_key year rs"

text \<open>
  The history block of the panel, for a truthy code. The body of \<open>list.forEach\<close> makes one
  block of an entry: its year, the class \<open>active\<close> when \<open>y === activeYear\<close>, and its texts, the
  text of index 0 with the class \<open>headline\<close> when the block is active.
\<close>

definition mkBlock :: "int \<Rightarrow> int \<times> jsstring list \<Rightarrow> eventBlock" where
  "mkBlock activeYear e =
     \<lparr> blockYear = fst e, active = (fst e = activeYear),
       texts = map (\<lambda>(i, txt). (txt, fst e = activeYear \<and> i = 0)) (enumerate 0 (snd e)) \<rparr>"

text \<open>
  \<open>eventsData[iso3]\<close> is \<open>undefined\<close> or an object, and an object is truthy. The entries are
  sorted by the stable \<open>sort\<close> with \<open>d3.descending\<close> on the year, filtered to the years up to
  the active year, and the filtered list is used when it is not empty.
\<close>

definition historyOf :: "eventLog \<Rightarrow> jsstring \<Rightarrow> int \<Rightarrow> historyView" where
  "historyOf ev code activeYear =
     (case ev code of
        None \<Rightarrow> NoEventsNote
      | Some obj \<Rightarrow>
          (let entries = sort_key (\<lambda>e. - fst e) obj;
               upTo = filter (\<lambda>e. fst e \<le> activeYear) entries;
               shown = (if upTo \<noteq> [] then upTo else entries)
           in Blocks (map (mkBlock activeYear) shown)))"

definition factorBarsOf :: "env \<Rightarrow> row \<Rightarrow> factorBar list" where
  "factorBarsOf e r =
     map (\<lambda>k. let v = (case factors r k of None \<Rightarrow> 0 | Some x \<Rightarrow> x); m = factorMaxByKey e k
              in \<lparr> barKey = k, barValue = v, barMax = m,
                   barWidth = v / (if m \<noteq> 0 then m else 1) * 100 \<rparr>)
         factorKeys"

text \<open>
  The result pairs the exception thrown, if any, with the state reached. With no selected
  row, \<open>row[f.key]\<close> throws after the header and the sparkline were already replaced.
\<close>

definition showCountryPanel :: "env \<Rightarrow> jsstring option \<Rightarrow> jsstring option \<Rightarrow> view
                                \<Rightarrow> jserror option \<times> view" where
  "showCountryPanel e code displayName s =
     (case code of
        None \<Rightarrow> (None, s)
      | Some c \<Rightarrow>
         if c = [] then (None, s) else
         (case byISO e code of
            None \<Rightarrow> (None, s)
          | Some grp \<Rightarrow>
             (let y = sliderValue s; rows = sortedRows grp
              in case pickRow rows y of
                   None \<Rightarrow> (Some TypeError,
                      s\<lparr>detail := (detail s)\<lparr>title := displayName, ladderToday := None,
                           sparkRows := rows, sparkDot := None, emptyNoteHidden := True\<rparr>\<rparr>)
                 | Some r \<Rightarrow> (None,
                      s\<lparr>detail := \<lparr> title = displayName,
                           ladderToday = (case ladder r of None \<Rightarrow> None
                                          | Some v \<Rightarrow> if v \<noteq> 0 then Some v else None),
                           sparkRows = rows, sparkDot = Some r, emptyNoteHidden = True,
                           factorBars = factorBarsOf e r,
                           covidChart = drawCovidComparison rows,
                           history = historyOf (eventsData e) c y \<rparr>\<rparr>))))"

subsection \<open>The two triggers\<close>

text \<open>The slider's \<open>input\<close> listener; the slider already holds the new value \<open>v\<close>.\<close>

definition sliderInput :: "env \<Rightarrow> int \<Rightarrow> view \<Rightarrow> jserror option \<times> view" where
  "sliderInput e v s =
     (let s1 = s\<lparr>sliderValue := v, yearLabel := Some v, mapFills := drawMap e v\<rparr>
      in if truthy (selectedISO s1)
         then showCountryPanel e (selectedISO s1)
                (case find (\<lambda>f. iso_a3 f = selectedISO s1) (worldData e) of
                   Some f \<Rightarrow> name f
                 | None \<Rightarrow> selectedISO s1)
                s1
         else (None, s1))"

text \<open>The \<open>click\<close> listener of a country path bound to feature \<open>d\<close>.\<close>

definition clickCountry :: "env \<Rightarrow> feature \<Rightarrow> view \<Rightarrow> jserror option \<times> view" where
  "clickCountry e d s = showCountryPanel e (iso_a3 d) (name d) (s\<lparr>selectedISO := iso_a3 d\<rparr>)"

section \<open>The contracts in the words of the specification\<close>

text \<open>
  Three contracts are worded by the specification as functions of their own; they are
  written down here as worded, to be compared with the code above.

  \<open>resolve\<close>: trim, look the trimmed name up, and on a miss look the normalised name up.
\<close>

definition spec_resolve :: "isoMap \<Rightarrow> jsstring \<Rightarrow> jsstring option" where
  "spec_resolve dict raw =
     (let t = trim raw
      in case dict t of Some c \<Rightarrow> Some c | None \<Rightarrow> dict (normalizeName t))"

text \<open>\<open>factorMaxima\<close>: the maximum of the non-null values of a key, 1 when there is none.\<close>

definition spec_factorMaxima :: "row list \<Rightarrow> factorKey \<Rightarrow> real" where
  "spec_factorMaxima rs k =
     (let vs = List.map_filter (\<lambda>d. factors d k) rs
      in if vs = [] then 1 else Max (set vs))"

text \<open>\<open>periodAverage\<close>: the mean of the non-null ladder scores of the years in the range
  (no upper end when \<open>hi\<close> is \<open>None\<close>), none when no observation qualifies.\<close>

definition inRange :: "int \<Rightarrow> int option \<Rightarrow> row \<Rightarrow> bool" where
  "inRange lo hi r = (lo \<le> year r \<and> (case hi of None \<Rightarrow> True | Some h \<Rightarrow> year r \<le> h))"

definition spec_periodAverage :: "row list \<Rightarrow> int \<Rightarrow> int option \<Rightarrow> real option" where
  "spec_periodAverage rs lo hi =
     (let vs = List.map_filter ladder (filter (inRange lo hi) rs)
      in if vs = [] then None else Some (sum_list vs / real (length vs)))"

section \<open>Example data\<close>

text \<open>ASCII text as a JavaScript string.\<close>

definition utf16 :: "string \<Rightarrow> jsstring" where
  "utf16 s = map of_char s"

definition obs :: "int \<Rightarrow> row" where
  "obs y = \<lparr> country = Some (utf16 ''Austria''), iso3 = Some (utf16 ''AUT''), year = y,
     rank = 5, ladder = Some 7, factors = (\<lambda>k. None) \<rparr>"

definition exDict :: isoMap where
  "exDict = [utf16 ''Austria'' \<mapsto> utf16 ''AUT'', utf16 ''Belgium'' \<mapsto> utf16 ''BEL'',
             utf16 ''St Lucia'' \<mapsto> utf16 ''LCA'']"

definition exCsv :: "rawrow list" where
  "exCsv = [\<lparr> rawName = Some (utf16 ''Austria ''), rawYear = 2015, rawRank = 5,
              rawLadder = Some 7, rawFactors = (\<lambda>k. None) \<rparr>]"

definition austria :: feature where
  "austria = \<lparr> name = Some (utf16 ''Austria''), iso_a3 = Some (utf16 ''AUT'') \<rparr>"

definition belgium :: feature where
  "belgium = \<lparr> name = Some (utf16 ''Belgium''), iso_a3 = Some (utf16 ''BEL'') \<rparr>"

definition exGeo :: "feature list" where
  "exGeo = [\<lparr> name = Some (utf16 ''Austria''), iso_a3 = None \<rparr>,
            \<lparr> name = Some (utf16 ''Belgium''), iso_a3 = None \<rparr>]"

definition exEnv :: env where
  "exEnv = initEnv (loadData exDict exCsv exGeo) Map.empty"

definition panel0 :: panel where
  "panel0 = \<lparr> title = None, ladderToday = None, sparkRows = [], sparkDot = None,
      emptyNoteHidden = False, factorBars = [], covidChart = Blank, history = Blocks [] \<rparr>"

definition view0 :: view where
  "view0 = \<lparr> sliderValue = 2016, selectedISO = None, yearLabel = None,
      mapFills = drawMap exEnv 2016, detail = panel0 \<rparr>"

definition score :: "int \<Rightarrow> real option \<Rightarrow> row" where
  "score y v = (obs y)\<lparr>ladder := v\<rparr>"

definition factorRow :: "real option \<Rightarrow> row" where
  "factorRow v = (obs 2015)\<lparr>factors := (\<lambda>k. v)\<rparr>"

definition exEvents :: eventLog where
  "exEvents = [utf16 ''AUT'' \<mapsto> [(2010, [utf16 ''a'', utf16 ''b'']), (2015, [utf16 ''c'']),
                                  (2020, [utf16 ''d''])]]"

definition emptyObjectEnv :: env where
  "emptyObjectEnv = exEnv\<lparr>eventsData := [utf16 ''AUT'' \<mapsto> []]\<rparr>"

definition luciaCsv :: "rawrow list" where
  "luciaCsv = [\<lparr> rawName = Some (utf16 ''St. Lucia''), rawYear = 2015, rawRank = 5,
                 rawLadder = Some 7, rawFactors = (\<lambda>k. None) \<rparr>]"

definition luciaGeo :: "feature list" where
  "luciaGeo = [\<lparr> name = Some (utf16 ''St. Lucia''), iso_a3 = None \<rparr>]"

text \<open>A polygon whose name is not in the dictionary and that comes with a code of its own.\<close>

definition nativeGeo :: "feature list" where
  "nativeGeo = [\<lparr> name = Some (utf16 ''Oesterreich''), iso_a3 = Some (utf16 ''AUT'') \<rparr>]"

section \<open>Properties\<close>

subsection \<open>Examples evaluated\<close>

lemmas load_defs = initEnv_def loadData_def resolveGeo_def resolveCsv_def convertRow_def
  trimName_def trim_def isWhite_def jsOr_def truthy_def Let_def

lemmas ex_defs = exEnv_def exGeo_def exDict_def exCsv_def obs_def utf16_def austria_def
  belgium_def view0_def panel0_def

lemma exEnv_world: "worldData exEnv = [austria, belgium]"
  by (simp add: load_defs ex_defs)

lemma exEnv_rows: "happinessData exEnv = [obs 2015]"
  by (simp add: load_defs ex_defs)

lemma exEnv_byISO: "byISO exEnv = d3_group iso3 [obs 2015]"
  by (simp add: load_defs ex_defs)

lemma exEnv_events: "eventsData exEnv = Map.empty"
  by (simp add: load_defs ex_defs)

subsection \<open>Name reconciliation\<close>

lemma trim_Nil: "trim [] = []"
  by (simp add: trim_def)

lemma trimName_Some_iff: "trimName raw = Some t \<longleftrightarrow> (\<exists>s. raw = Some s \<and> s \<noteq> [] \<and> t = trim s)"
  by (auto simp: trimName_def split: option.splits)

lemma jsOr_None: "jsOr a None = Some c \<longleftrightarrow> a = Some c \<and> c \<noteq> []"
  by (auto simp: jsOr_def truthy_def split: option.splits)

lemma resolveCsv_Some_iff:
  "resolveCsv dict (trimName raw) = Some c \<longleftrightarrow>
     c \<noteq> [] \<and> (\<exists>s. raw = Some s \<and> trim s \<noteq> [] \<and> dict (trim s) = Some c)"
proof (cases "trimName raw")
  case None
  then have "\<not> (\<exists>s. raw = Some s \<and> trim s \<noteq> [])"
    by (auto simp: trimName_def trim_Nil split: option.splits if_splits)
  with None show ?thesis by (auto simp: resolveCsv_def)
next
  case (Some t)
  then obtain s where s: "raw = Some s" "s \<noteq> []" "t = trim s"
    by (auto simp: trimName_Some_iff)
  with Some show ?thesis
    by (auto simp: resolveCsv_def jsOr_None)
qed

lemma resolveGeo_Some_iff:
  "resolveGeo dict raw = Some c \<longleftrightarrow>
     c \<noteq> [] \<and> (\<exists>s. raw = Some s \<and> trim s \<noteq> [] \<and>
        (dict (trim s) = Some c \<or>
         (\<not> truthy (dict (trim s)) \<and> dict (normalizeName (trim s)) = Some c)))"
proof (cases "trimName raw")
  case None
  then have "\<not> (\<exists>s. raw = Some s \<and> trim s \<noteq> [])"
    by (auto simp: trimName_def trim_Nil split: option.splits if_splits)
  with None show ?thesis by (auto simp: resolveGeo_def jsOr_None)
next
  case (Some t)
  then obtain s where s: "raw = Some s" "s \<noteq> []" "t = trim s"
    by (auto simp: trimName_Some_iff)
  show ?thesis
  proof (cases "t = []")
    case True
    with Some s show ?thesis by (auto simp: resolveGeo_def jsOr_None)
  next
    case False
    with Some s show ?thesis
      by (auto simp: resolveGeo_def jsOr_None jsOr_def truthy_def Let_def
               split: option.splits)
  qed
qed

lemma resolveGeo_spec:
  assumes "\<forall>n c. dict n = Some c \<longrightarrow> c \<noteq> []" and "trim s \<noteq> []"
  shows "resolveGeo dict (Some s) = spec_resolve dict s"
proof -
  from assms(2) have "s \<noteq> []" by (auto simp: trim_Nil)
  with assms show ?thesis
    by (auto simp: resolveGeo_def spec_resolve_def trimName_def jsOr_def truthy_def Let_def
             split: option.splits)
qed

lemma filtered_rows:
  assumes "d \<in> set (filtered (loadData dict csv geo))"
  shows "\<exists>r\<in>set csv. \<exists>c. d = (convertRow r)\<lparr>iso3 := Some c\<rparr> \<and>
            resolveCsv dict (trimName (rawName r)) = Some c \<and>
            (\<exists>f\<in>set geo. resolveGeo dict (name f) = Some c)"
proof -
  from assms obtain r where r: "r \<in> set csv"
      and d: "d = (convertRow r)\<lparr>iso3 := resolveCsv dict (country (convertRow r))\<rparr>"
      and t: "truthy (iso3 d)"
      and g: "iso3 d \<in> set (filter truthy (map iso_a3
                 (map (\<lambda>f. f\<lparr>iso_a3 := resolveGeo dict (name f)\<rparr>) geo)))"
    by (auto simp: loadData_def Let_def)
  from t obtain c where c: "iso3 d = Some c" by (auto simp: truthy_def split: option.splits)
  with d have rc: "resolveCsv dict (trimName (rawName r)) = Some c"
    by (simp add: convertRow_def)
  from g c obtain f where "f \<in> set geo" "resolveGeo dict (name f) = Some c" by auto
  then have gf: "\<exists>f\<in>set geo. resolveGeo dict (name f) = Some c" by blast
  from d rc have "d = (convertRow r)\<lparr>iso3 := Some c\<rparr>" by (simp add: convertRow_def)
  with r rc gf show ?thesis by blast
qed

text \<open>
  The two lookups, in every revision: the name of a polygon feature is trimmed and looked up,
  and on a miss the trimmed name without its full stops and with the apostrophe variants made
  one is looked up; with no empty code in the dictionary this is \<open>resolve\<close> of the
  specification. The name of a table row is trimmed and looked up once, with no second
  lookup. A code is none when the lookups miss. In the two later revisions, where
  \<open>loadData\<close> overwrites the code of every feature, every retained row carries the code its
  name resolved to and a feature resolved to the same code, and the per-country index and the
  factor maxima are computed from the retained rows only.
\<close>

theorem name_resolution:
  "(resolveGeo dict raw = Some c \<longleftrightarrow>
      c \<noteq> [] \<and> (\<exists>s. raw = Some s \<and> trim s \<noteq> [] \<and>
        (dict (trim s) = Some c \<or>
         (\<not> truthy (dict (trim s)) \<and> dict (normalizeName (trim s)) = Some c)))) \<and>
   ((\<forall>n k. dict n = Some k \<longrightarrow> k \<noteq> []) \<and> trim s \<noteq> [] \<longrightarrow>
      resolveGeo dict (Some s) = spec_resolve dict s) \<and>
   (resolveCsv dict (trimName raw) = Some c \<longleftrightarrow>
      c \<noteq> [] \<and> (\<exists>s. raw = Some s \<and> trim s \<noteq> [] \<and> dict (trim s) = Some c)) \<and>
   (\<forall>d\<in>set (filtered (loadData dict csv geo)).
      \<exists>r\<in>set csv. \<exists>k. d = (convertRow r)\<lparr>iso3 := Some k\<rparr> \<and>
         resolveCsv dict (trimName (rawName r)) = Some k \<and>
         (\<exists>f\<in>set geo. resolveGeo dict (name f) = Some k)) \<and>
   groups (loadData dict csv geo) = d3_group iso3 (filtered (loadData dict csv geo)) \<and>
   factorMax (loadData dict csv geo) = factorMaxOf (filtered (loadData dict csv geo))"
proof -
  have "groups (loadData dict csv geo) = d3_group iso3 (filtered (loadData dict csv geo))"
    and "factorMax (loadData dict csv geo) = factorMaxOf (filtered (loadData dict csv geo))"
    by (simp_all add: loadData_def Let_def)
  then show ?thesis
    using resolveGeo_Some_iff [of dict raw c] resolveGeo_spec [of dict s]
      resolveCsv_Some_iff [of dict raw c] filtered_rows [of _ dict csv geo]
    by blast
qed

theorem name_resolution_witness:
  "resolveGeo exDict (Some (utf16 '' St. Lucia '')) = Some (utf16 ''LCA'') \<and>
   spec_resolve exDict (utf16 '' St. Lucia '') = Some (utf16 ''LCA'') \<and>
   resolveCsv exDict (trimName (Some (utf16 ''Austria ''))) = Some (utf16 ''AUT'') \<and>
   filtered (loadData exDict exCsv exGeo) = [obs 2015]"
  using name_resolution [of exDict "Some (utf16 '' St. Lucia '')" "utf16 ''LCA''"
      "utf16 '' St. Lucia ''" exCsv exGeo]
    name_resolution [of exDict "Some (utf16 ''Austria '')" "utf16 ''AUT''"
      "utf16 ''Austria ''" exCsv exGeo]
  by (simp add: load_defs spec_resolve_def normalizeName_def ex_defs)

text \<open>
  C7 at a table row named "St. Lucia", with "St Lucia" in the dictionary: \<open>resolve\<close> of the
  specification gives the code and the polygon of that name gets it by the second lookup,
  but the table row gets no second lookup, its code is none, and the observation is dropped
  from the retained rows, in the later revisions and in the oldest one alike.
\<close>

theorem table_name_without_retry:
  "spec_resolve exDict (utf16 ''St. Lucia'') = Some (utf16 ''LCA'') \<and>
   resolveGeo exDict (Some (utf16 ''St. Lucia'')) = Some (utf16 ''LCA'') \<and>
   resolveCsv exDict (trimName (Some (utf16 ''St. Lucia''))) = None \<and>
   map iso_a3 (world (loadData exDict luciaCsv luciaGeo)) = [Some (utf16 ''LCA'')] \<and>
   filtered (loadData exDict luciaCsv luciaGeo) = [] \<and>
   map iso_a3 (fst (loadData_first exDict luciaCsv luciaGeo)) = [Some (utf16 ''LCA'')] \<and>
   snd (loadData_first exDict luciaCsv luciaGeo) = []"
  by (simp add: load_defs loadData_first_def spec_resolve_def normalizeName_def exDict_def
        utf16_def luciaCsv_def luciaGeo_def)

text \<open>
  Where the revisions differ: a polygon that comes with the code of Austria under a name the
  dictionary does not have keeps that code in the oldest revision, and Austria's row is
  retained; the later revisions overwrite the code with none and drop the row. In both, a
  polygon without a code stays among the features.
\<close>

lemma native_code_first_revision:
  "map iso_a3 (fst (loadData_first exDict exCsv nativeGeo)) = [Some (utf16 ''AUT'')] \<and>
   snd (loadData_first exDict exCsv nativeGeo) = [obs 2015] \<and>
   map iso_a3 (world (loadData exDict exCsv nativeGeo)) = [None] \<and>
   filtered (loadData exDict exCsv nativeGeo) = []"
  by (simp add: load_defs loadData_first_def normalizeName_def exDict_def exCsv_def
        nativeGeo_def obs_def utf16_def)

subsection \<open>The row selected for a year\<close>

lemma find_conv_filter:
  "find P xs = (case filter P xs of [] \<Rightarrow> None | x # _ \<Rightarrow> Some x)"
  by (induction xs) auto

lemma find_rev_conv_filter:
  "find P (rev xs) = (if filter P xs = [] then None else Some (last (filter P xs)))"
  by (induction xs rule: rev_induct) auto

lemma find_sort_key_stable:
  "find (\<lambda>r. f r = k) (sort_key f xs) = find (\<lambda>r. f r = k) xs"
  by (simp add: find_conv_filter sort_key_stable)

lemma sorted_key_last_max:
  "sorted (map f xs) \<Longrightarrow> x \<in> set xs \<Longrightarrow> f x \<le> f (last xs)"
proof (induction xs)
  case Nil
  then show ?case by simp
next
  case (Cons a xs)
  then show ?case by (cases "xs = []") auto
qed

lemma pickRow_None_iff: "pickRow rows q = None \<longleftrightarrow> rows = []"
  by (auto simp: pickRow_def split: option.splits)

lemma pickRow_exact:
  "\<exists>r\<in>set rows. year r = q \<Longrightarrow> pickRow rows q = find (\<lambda>r. year r = q) rows"
  by (auto simp: pickRow_def find_None_iff split: option.splits)

lemma pickRow_prior:
  assumes srt: "sorted (map year rows)"
    and noex: "\<forall>r\<in>set rows. year r \<noteq> q"
    and some: "\<exists>r\<in>set rows. year r < q"
  shows "\<exists>r\<in>set rows. pickRow rows q = Some r \<and> year r < q
            \<and> (\<forall>r'\<in>set rows. year r' < q \<longrightarrow> year r' \<le> year r)"
proof -
  let ?P = "\<lambda>r. year r \<le> q"
  let ?fs = "filter ?P rows"
  from some have ne: "?fs \<noteq> []" by (auto simp: filter_empty_conv intro: less_imp_le)
  from noex have "find (\<lambda>r. year r = q) rows = None" by (simp add: find_None_iff)
  then have pick: "pickRow rows q = Some (last ?fs)"
    using ne by (simp add: pickRow_def find_rev_conv_filter)
  from ne have mem: "last ?fs \<in> set ?fs" by (rule last_in_set)
  then have in_rows: "last ?fs \<in> set rows" and le: "year (last ?fs) \<le> q" by auto
  with noex have lt: "year (last ?fs) < q" by force
  from srt have "sorted (map year ?fs)" by (rule sorted_filter)
  then have "\<forall>r'\<in>set ?fs. year r' \<le> year (last ?fs)"
    by (blast intro: sorted_key_last_max)
  then have "\<forall>r'\<in>set rows. year r' < q \<longrightarrow> year r' \<le> year (last ?fs)" by auto
  with pick in_rows lt show ?thesis by blast
qed

lemma pickRow_before_all:
  assumes srt: "sorted (map year rows)"
    and all: "\<forall>r\<in>set rows. q < year r"
    and ne: "rows \<noteq> []"
  shows "pickRow rows q = Some (last rows) \<and> last rows \<in> set rows
            \<and> (\<forall>r'\<in>set rows. year r' \<le> year (last rows))"
proof -
  from all have "find (\<lambda>r. year r = q) rows = None" by (auto simp: find_None_iff)
  moreover from all have "filter (\<lambda>r. year r \<le> q) rows = []"
    by (auto simp: filter_empty_conv)
  ultimately have "pickRow rows q = Some (last rows)"
    using ne by (simp add: pickRow_def find_rev_conv_filter)
  moreover from srt have "\<forall>r'\<in>set rows. year r' \<le> year (last rows)"
    by (blast intro: sorted_key_last_max)
  ultimately show ?thesis using ne by simp
qed

lemma sorted_sortedRows: "sorted (map year (sortedRows grp))"
  by (simp add: sortedRows_def)

lemma set_sortedRows: "set (sortedRows grp) = set grp"
  by (simp add: sortedRows_def)

lemma sortedRows_Nil_iff: "sortedRows grp = [] \<longleftrightarrow> grp = []"
  by (metis set_sortedRows set_empty)

text \<open>
  C2. On the ascending series of a country, the row selection returns the first observation
  of the query year when there is one (the first in the series, which is also the first in
  the order of the table); otherwise an observation of the largest year below the query
  year; otherwise, when the query year precedes every year of the series, an observation of
  the largest year of the series; and it returns nothing exactly when the series is empty.
\<close>

theorem lookup_policy:
  "(pickRow (sortedRows grp) q = None \<longleftrightarrow> grp = []) \<and>
   ((\<exists>r\<in>set grp. year r = q) \<longrightarrow>
      pickRow (sortedRows grp) q = find (\<lambda>r. year r = q) (sortedRows grp) \<and>
      find (\<lambda>r. year r = q) (sortedRows grp) = find (\<lambda>r. year r = q) grp) \<and>
   ((\<forall>r\<in>set grp. year r \<noteq> q) \<and> (\<exists>r\<in>set grp. year r < q) \<longrightarrow>
      (\<exists>r\<in>set grp. pickRow (sortedRows grp) q = Some r \<and> year r < q \<and>
          (\<forall>r'\<in>set grp. year r' < q \<longrightarrow> year r' \<le> year r))) \<and>
   ((\<forall>r\<in>set grp. q < year r) \<and> grp \<noteq> [] \<longrightarrow>
      (\<exists>r\<in>set grp. pickRow (sortedRows grp) q = Some r \<and>
          (\<forall>r'\<in>set grp. year r' \<le> year r)))"
proof (intro conjI impI)
  show "pickRow (sortedRows grp) q = None \<longleftrightarrow> grp = []"
    by (simp add: pickRow_None_iff sortedRows_Nil_iff)
next
  assume "\<exists>r\<in>set grp. year r = q"
  then show "pickRow (sortedRows grp) q = find (\<lambda>r. year r = q) (sortedRows grp)"
    by (intro pickRow_exact) (simp add: set_sortedRows)
next
  show "find (\<lambda>r. year r = q) (sortedRows grp) = find (\<lambda>r. year r = q) grp"
    unfolding sortedRows_def by (rule find_sort_key_stable)
next
  assume "(\<forall>r\<in>set grp. year r \<noteq> q) \<and> (\<exists>r\<in>set grp. year r < q)"
  then show "\<exists>r\<in>set grp. pickRow (sortedRows grp) q = Some r \<and> year r < q \<and>
          (\<forall>r'\<in>set grp. year r' < q \<longrightarrow> year r' \<le> year r)"
    using pickRow_prior [of "sortedRows grp" q]
    by (simp add: sorted_sortedRows set_sortedRows)
next
  assume "(\<forall>r\<in>set grp. q < year r) \<and> grp \<noteq> []"
  then show "\<exists>r\<in>set grp. pickRow (sortedRows grp) q = Some r \<and>
          (\<forall>r'\<in>set grp. year r' \<le> year r)"
    using pickRow_before_all [of "sortedRows grp" q]
    by (simp add: sorted_sortedRows set_sortedRows sortedRows_Nil_iff)
qed

theorem lookup_policy_witness:
  "(\<exists>r\<in>set [obs 2020, obs 2015, obs 2017]. year r = 2017) \<and>
   pickRow (sortedRows [obs 2020, obs 2015, obs 2017]) 2017 = Some (obs 2017) \<and>
   \<not> (\<exists>r\<in>set [obs 2020, obs 2015, obs 2017]. year r = 2016) \<and>
   (\<exists>r\<in>set [obs 2020, obs 2015, obs 2017]. year r < 2016) \<and>
   pickRow (sortedRows [obs 2020, obs 2015, obs 2017]) 2016 = Some (obs 2015) \<and>
   \<not> (\<exists>r\<in>set [obs 2020, obs 2015, obs 2017]. year r \<le> 2014) \<and>
   pickRow (sortedRows [obs 2020, obs 2015, obs 2017]) 2014 = Some (obs 2020) \<and>
   pickRow (sortedRows []) 2014 = None"
  using lookup_policy [of "[obs 2020, obs 2015, obs 2017]" 2017]
    lookup_policy [of "[obs 2020, obs 2015, obs 2017]" 2016]
    lookup_policy [of "[obs 2020, obs 2015, obs 2017]" 2014]
    lookup_policy [of "[]" 2014]
  by (simp add: pickRow_def sortedRows_def obs_def)

lemma sortedRows_three:
  assumes "set grp = {a, b, c}" "length grp = 3"
    and "year a < year b" "year b < year c"
  shows "sortedRows grp = [a, b, c]"
proof -
  have abc: "a \<noteq> b" "b \<noteq> c" "a \<noteq> c" using assms(3,4) by auto
  then have "card (set grp) = length grp" using assms(1,2) by simp
  then have dg: "distinct grp" by (simp add: card_distinct)
  have inj: "inj_on year (set (sortedRows grp) \<union> set [a, b, c])"
    using assms by (auto simp: set_sortedRows inj_on_def)
  have d1: "distinct (map year (sortedRows grp))"
    using dg inj by (simp add: distinct_map sortedRows_def inj_on_def)
  show ?thesis
    using inj sorted_sortedRows d1
  proof (rule map_sorted_distinct_set_unique)
    show "sorted (map year [a, b, c])" using assms(3,4) by simp
    show "distinct (map year [a, b, c])" using assms(3,4) by simp
    show "set (sortedRows grp) = set [a, b, c]" using assms(1) by (simp add: set_sortedRows)
  qed
qed

text \<open>
  C3, as the code has it. For a series with one observation for each of the years 2015, 2017
  and 2020, in any order: the query year 2016 selects the observation of 2015, the query
  year 2014 selects the observation of 2020 (the last of the series), the query year 2020
  selects the observation of 2020, and the query year 2025 selects the observation of 2020.
\<close>

theorem lookup_example_years:
  assumes "set grp = {a, b, c}" "length grp = 3"
    and "year a = 2015" "year b = 2017" "year c = 2020"
  shows "pickRow (sortedRows grp) 2016 = Some a \<and>
         pickRow (sortedRows grp) 2014 = Some c \<and>
         pickRow (sortedRows grp) 2020 = Some c \<and>
         pickRow (sortedRows grp) 2025 = Some c"
proof -
  have "sortedRows grp = [a, b, c]"
    using assms by (intro sortedRows_three) simp_all
  then show ?thesis using assms(3-5) by (simp add: pickRow_def)
qed

theorem lookup_example_years_witness:
  "set [obs 2020, obs 2015, obs 2017] = {obs 2015, obs 2017, obs 2020} \<and>
   length [obs 2020, obs 2015, obs 2017] = 3 \<and>
   year (obs 2015) = 2015 \<and> year (obs 2017) = 2017 \<and> year (obs 2020) = 2020 \<and>
   pickRow (sortedRows [obs 2020, obs 2015, obs 2017]) 2016 = Some (obs 2015) \<and>
   pickRow (sortedRows [obs 2020, obs 2015, obs 2017]) 2014 = Some (obs 2020) \<and>
   pickRow (sortedRows [obs 2020, obs 2015, obs 2017]) 2020 = Some (obs 2020) \<and>
   pickRow (sortedRows [obs 2020, obs 2015, obs 2017]) 2025 = Some (obs 2020)"
proof -
  have s: "set [obs 2020, obs 2015, obs 2017] = {obs 2015, obs 2017, obs 2020}" by auto
  have l: "length [obs 2020, obs 2015, obs 2017] = 3" by simp
  have y: "year (obs 2015) = 2015" "year (obs 2017) = 2017" "year (obs 2020) = 2020"
    by (simp_all add: obs_def)
  show ?thesis using s l y lookup_example_years [OF s l y] by simp
qed

text \<open>
  C3 as stated fails at the query year 2014: the selected observation is the one of 2020,
  not the one of 2015.
\<close>

theorem lookup_before_first_year_counterexample:
  "pickRow (sortedRows [obs 2015, obs 2017, obs 2020]) 2014 = Some (obs 2020) \<and>
   pickRow (sortedRows [obs 2015, obs 2017, obs 2020]) 2014 \<noteq> Some (obs 2015)"
  by (simp add: pickRow_def sortedRows_def obs_def)

subsection \<open>Groups are never empty\<close>

lemma d3_group_foldl:
  "foldl (\<lambda>groups v. case groups (keyof v) of
                          Some grp \<Rightarrow> groups(keyof v \<mapsto> grp @ [v])
                        | None \<Rightarrow> groups(keyof v \<mapsto> [v])) g vs k =
   (case g k of
      Some grp \<Rightarrow> Some (grp @ filter (\<lambda>v. keyof v = k) vs)
    | None \<Rightarrow> (if filter (\<lambda>v. keyof v = k) vs = [] then None
               else Some (filter (\<lambda>v. keyof v = k) vs)))"
proof (induction vs arbitrary: g)
  case Nil
  then show ?case by (simp split: option.splits)
next
  case (Cons v vs)
  show ?case
    by (simp add: Cons.IH split: option.splits)
qed

lemma d3_group_eq:
  "d3_group keyof vs k =
     (if filter (\<lambda>v. keyof v = k) vs = [] then None else Some (filter (\<lambda>v. keyof v = k) vs))"
  by (simp add: d3_group_def d3_group_foldl)

lemma d3_group_nonempty: "d3_group keyof vs k = Some grp \<Longrightarrow> grp \<noteq> []"
  by (auto simp: d3_group_eq split: if_splits)

lemma showCountryPanel_no_throw:
  assumes "\<forall>grp. byISO e code = Some grp \<longrightarrow> grp \<noteq> []"
  shows "fst (showCountryPanel e code nm s) = None"
  using assms
  by (auto simp: showCountryPanel_def Let_def pickRow_None_iff sortedRows_Nil_iff
           split: option.splits)

text \<open>
  C10. When the per-country index is the grouping of the retained rows and the selected code
  is one of its keys, the series of that code is not empty, the last element of the sorted
  series is one of its observations, the row selection yields an observation for every
  year, and \<open>showCountryPanel\<close> does not throw.
\<close>

theorem group_series_nonempty:
  assumes grouped: "byISO e = d3_group iso3 (happinessData e)"
    and guard: "byISO e code = Some grp"
  shows "grp \<noteq> [] \<and> last (sortedRows grp) \<in> set grp \<and>
         (\<exists>r. pickRow (sortedRows grp) q = Some r) \<and>
         fst (showCountryPanel e code nm s) = None"
proof -
  from grouped guard have ne: "grp \<noteq> []" by (auto dest: d3_group_nonempty)
  then have "sortedRows grp \<noteq> []" by (simp add: sortedRows_Nil_iff)
  then have "last (sortedRows grp) \<in> set (sortedRows grp)" by (rule last_in_set)
  then have "last (sortedRows grp) \<in> set grp" by (simp add: set_sortedRows)
  moreover from ne have "\<exists>r. pickRow (sortedRows grp) q = Some r"
    using pickRow_None_iff [of "sortedRows grp" q] by (auto simp: sortedRows_Nil_iff)
  moreover have "fst (showCountryPanel e code nm s) = None"
    using grouped by (intro showCountryPanel_no_throw) (auto dest: d3_group_nonempty)
  ultimately show ?thesis using ne by simp
qed

theorem group_series_nonempty_witness:
  "byISO exEnv = d3_group iso3 (happinessData exEnv) \<and>
   byISO exEnv (Some (utf16 ''AUT'')) = Some [obs 2015] \<and>
   last (sortedRows [obs 2015]) \<in> set [obs 2015] \<and>
   (\<exists>r. pickRow (sortedRows [obs 2015]) 2016 = Some r) \<and>
   fst (showCountryPanel exEnv (Some (utf16 ''AUT'')) (Some (utf16 ''Austria'')) view0) = None"
proof -
  have g: "byISO exEnv = d3_group iso3 (happinessData exEnv)"
    by (simp add: exEnv_byISO exEnv_rows)
  have k: "byISO exEnv (Some (utf16 ''AUT'')) = Some [obs 2015]"
    by (simp add: exEnv_byISO d3_group_def obs_def)
  show ?thesis
    using g k group_series_nonempty [OF g k, of 2016 "Some (utf16 ''Austria'')" view0]
    by simp
qed

subsection \<open>Factor maxima\<close>

lemma d3_max_foldl_Some:
  "foldl (\<lambda>m v. case v of None \<Rightarrow> m
                   | Some x \<Rightarrow> (case m of None \<Rightarrow> Some x
                                | Some y \<Rightarrow> if y < x then Some x else Some y))
         (Some (y::real)) (map Some xs) = Some (fold max xs y)"
proof (induction xs arbitrary: y)
  case Nil
  then show ?case by simp
next
  case (Cons x xs)
  have "(if y < x then x else y) = max x y" by (auto simp: max_def)
  then show ?case by (simp add: Cons.IH)
qed

lemma d3_max_Some:
  "d3_max (map Some xs) = (if xs = [] then None else Some (Max (set xs)))"
proof (cases xs)
  case Nil
  then show ?thesis by (simp add: d3_max_def)
next
  case (Cons x xs')
  then show ?thesis
    using d3_max_foldl_Some [of x xs']
    by (simp add: d3_max_def Max.set_eq_fold [symmetric])
qed

lemma factorMaxOf_eq:
  "factorMaxOf rs k =
     (if rs = [] \<or> Max (set (zeroed rs k)) = 0 then 1 else Max (set (zeroed rs k)))"
proof -
  have "zeroed rs k = [] \<longleftrightarrow> rs = []" by (simp add: zeroed_def)
  then show ?thesis
    by (simp add: factorMaxOf_def d3_max_Some)
qed

lemma zeroed_all_null:
  "\<forall>d\<in>set rs. factors d k = None \<Longrightarrow> set (zeroed rs k) \<subseteq> {0}"
  by (auto simp: zeroed_def)

lemma factorMaxOf_all_null:
  assumes "\<forall>d\<in>set rs. factors d k = None"
  shows "factorMaxOf rs k = 1"
proof (cases "rs = []")
  case True
  then show ?thesis by (simp add: factorMaxOf_eq)
next
  case False
  then obtain d where "d \<in> set rs" by (cases rs) auto
  with assms have "0 \<in> set (zeroed rs k)" by (force simp: zeroed_def)
  with zeroed_all_null [OF assms] have "set (zeroed rs k) = {0}" by auto
  then show ?thesis by (simp add: factorMaxOf_eq)
qed

lemma set_map_filter: "set (List.map_filter f xs) = {v. \<exists>x\<in>set xs. f x = Some v}"
  by (induction xs) (auto split: option.splits)

lemma factorMaxOf_positive:
  assumes "\<exists>d\<in>set rs. \<exists>v. factors d k = Some v \<and> 0 < v"
  shows "factorMaxOf rs k = spec_factorMaxima rs k"
proof -
  let ?N = "set (List.map_filter (\<lambda>d. factors d k) rs)"
  let ?Z = "set (zeroed rs k)"
  from assms obtain d v where d: "d \<in> set rs" "factors d k = Some v" "0 < v" by blast
  then have vN: "v \<in> ?N" by (auto simp: set_map_filter)
  have finN: "finite ?N" by simp
  have neN: "List.map_filter (\<lambda>d. factors d k) rs \<noteq> []" using vN by auto
  have NZ: "?N \<subseteq> ?Z" by (force simp: set_map_filter zeroed_def)
  have ZN: "?Z \<subseteq> insert 0 ?N"
    by (auto simp: set_map_filter zeroed_def split: option.splits)
  have pos: "0 < Max ?N" using vN finN d(3) by (meson Max_ge less_le_trans)
  have "Max ?Z = Max ?N"
  proof (rule Max_eqI)
    show "finite ?Z" by simp
    have "Max ?N \<in> ?N" using vN by (intro Max_in) auto
    with NZ show "Max ?N \<in> ?Z" by (rule subsetD)
    fix z assume "z \<in> ?Z"
    with ZN have "z = 0 \<or> z \<in> ?N" by blast
    then show "z \<le> Max ?N" using pos finN by (auto intro: Max_ge)
  qed
  moreover have "rs \<noteq> []" using d(1) by auto
  ultimately show ?thesis
    using pos neN by (simp add: factorMaxOf_eq spec_factorMaxima_def)
qed

text \<open>
  C4, as the code has it. For each factor key, the stored maximum is the maximum of the key's
  values over the retained observations with a null value counted as zero, and it is the
  default 1 when that maximum is zero or nothing is retained. So it is 1 when every value
  of the key is null, and it is the maximum of the non-null values when one of them is
  positive.
\<close>

theorem factor_maxima_nulls_as_zero:
  "factorMaxOf rs k =
     (if rs = [] \<or> Max (set (zeroed rs k)) = 0 then 1 else Max (set (zeroed rs k))) \<and>
   ((\<forall>d\<in>set rs. factors d k = None) \<longrightarrow> factorMaxOf rs k = 1) \<and>
   ((\<exists>d\<in>set rs. \<exists>v. factors d k = Some v \<and> 0 < v) \<longrightarrow>
      factorMaxOf rs k = spec_factorMaxima rs k)"
  using factorMaxOf_eq [of rs k] factorMaxOf_all_null [of rs k] factorMaxOf_positive [of rs k]
  by blast

theorem factor_maxima_nulls_as_zero_witness:
  "factorMaxOf [factorRow (Some 3), factorRow None, factorRow (Some 7)] Gdp = 7 \<and>
   spec_factorMaxima [factorRow (Some 3), factorRow None, factorRow (Some 7)] Gdp = 7 \<and>
   \<not> (\<exists>d\<in>set [factorRow None, factorRow None]. factors d Gdp \<noteq> None) \<and>
   factorMaxOf [factorRow None, factorRow None] Gdp = 1"
  using factor_maxima_nulls_as_zero [of "[factorRow (Some 3), factorRow None, factorRow (Some 7)]" Gdp]
    factor_maxima_nulls_as_zero [of "[factorRow None, factorRow None]" Gdp]
  by (simp add: factorRow_def obs_def zeroed_def spec_factorMaxima_def)

text \<open>
  C4 as stated fails when no value of the key is positive: for the single value 0 the maximum
  of the non-null values is 0 and the stored maximum is 1; for the values \<open>-1\<close> and null the
  maximum of the non-null values is \<open>-1\<close> and the stored maximum is 1.
\<close>

theorem factor_maxima_zero_counterexample:
  "spec_factorMaxima [factorRow (Some 0)] Gdp = 0 \<and> factorMaxOf [factorRow (Some 0)] Gdp = 1 \<and>
   spec_factorMaxima [factorRow (Some (- 1)), factorRow None] Gdp = - 1 \<and>
   factorMaxOf [factorRow (Some (- 1)), factorRow None] Gdp = 1"
  by (simp add: spec_factorMaxima_def factorMaxOf_def zeroed_def d3_max_def factorRow_def
        obs_def)

subsection \<open>Period averages\<close>

lemma d3_mean_foldl:
  "foldl (\<lambda>(count, total) v. case v of None \<Rightarrow> (count, total)
                                | Some x \<Rightarrow> (count + 1, total + x)) (c, t) vs
   = (c + length (List.map_filter (\<lambda>v. v) vs), t + sum_list (List.map_filter (\<lambda>v. v) vs))"
  by (induction vs arbitrary: c t) (auto simp: add.assoc split: option.splits)

lemma d3_mean_eq:
  "d3_mean vs =
     (if List.map_filter (\<lambda>v. v) vs = [] then None
      else Some (sum_list (List.map_filter (\<lambda>v. v) vs) / real (length (List.map_filter (\<lambda>v. v) vs))))"
  by (simp add: d3_mean_def d3_mean_foldl)

lemma map_filter_Nil_iff: "List.map_filter f xs = [] \<longleftrightarrow> (\<forall>x\<in>set xs. f x = None)"
  by (induction xs) (auto split: option.splits)

lemma map_filter_map_id: "List.map_filter (\<lambda>v. v) (map f xs) = List.map_filter f xs"
  by (induction xs) (auto split: option.splits)

lemma mean_of_rows:
  "(if xs \<noteq> [] then d3_mean (map ladder xs) else None) =
     (if List.map_filter ladder xs = [] then None
      else Some (sum_list (List.map_filter ladder xs) / real (length (List.map_filter ladder xs))))"
  by (cases "xs = []") (simp_all add: d3_mean_eq map_filter_map_id)

lemma inRange_pre: "inRange 2015 (Some 2019) = (\<lambda>r. 2015 \<le> year r \<and> year r \<le> 2019)"
  by (auto simp: inRange_def)

lemma inRange_post: "inRange 2020 None = (\<lambda>r. 2020 \<le> year r)"
  by (auto simp: inRange_def)

lemma preAvg_spec: "preAvg rows = spec_periodAverage rows 2015 (Some 2019)"
  unfolding preAvg_def spec_periodAverage_def Let_def mean_of_rows inRange_pre ..

lemma postAvg_spec: "postAvg rows = spec_periodAverage rows 2020 None"
  unfolding postAvg_def spec_periodAverage_def Let_def mean_of_rows inRange_post ..

lemma spec_periodAverage_None_iff:
  "spec_periodAverage rows lo hi = None \<longleftrightarrow>
     \<not> (\<exists>r\<in>set rows. inRange lo hi r \<and> ladder r \<noteq> None)"
  by (auto simp: spec_periodAverage_def Let_def map_filter_Nil_iff)

text \<open>
  C6. The two averages of \<open>drawCovidComparison\<close> are the period average of the specification
  for the ranges 2015 to 2019 and 2020 onwards: the mean of the non-null ladder scores of the
  observations in the range. A period average is none exactly when no observation of the
  range has a ladder score. The chart is the "no data" paragraph exactly when both averages
  are none; otherwise it has a bar for exactly the periods whose average is not none, with
  that average as its value, so an average that is none is never drawn.
\<close>

theorem period_average:
  "preAvg rows = spec_periodAverage rows 2015 (Some 2019) \<and>
   postAvg rows = spec_periodAverage rows 2020 None \<and>
   (spec_periodAverage rows lo hi = None \<longleftrightarrow>
      \<not> (\<exists>r\<in>set rows. inRange lo hi r \<and> ladder r \<noteq> None)) \<and>
   (drawCovidComparison rows = NoData \<longleftrightarrow> preAvg rows = None \<and> postAvg rows = None) \<and>
   drawCovidComparison rows \<noteq> Blank \<and>
   (\<forall>bs. drawCovidComparison rows = Bars bs \<longrightarrow>
      (\<forall>p v. (p, v) \<in> set bs \<longleftrightarrow>
         (p = PreCovid \<and> preAvg rows = Some v) \<or> (p = PostCovid \<and> postAvg rows = Some v)))"
proof (intro conjI)
  show "\<forall>bs. drawCovidComparison rows = Bars bs \<longrightarrow>
      (\<forall>p v. (p, v) \<in> set bs \<longleftrightarrow>
         (p = PreCovid \<and> preAvg rows = Some v) \<or> (p = PostCovid \<and> postAvg rows = Some v))"
    by (cases "preAvg rows"; cases "postAvg rows")
       (auto simp: drawCovidComparison_def)
qed (simp_all add: preAvg_spec postAvg_spec spec_periodAverage_None_iff
       drawCovidComparison_def)

theorem period_average_witness:
  "preAvg [score 2015 (Some 1), score 2016 (Some 2), score 2017 (Some 3), score 2018 (Some 4),
           score 2019 (Some 5)] = Some 3 \<and>
   \<not> (\<exists>r\<in>set [score 2015 (Some 1), score 2016 (Some 2), score 2017 (Some 3),
            score 2018 (Some 4), score 2019 (Some 5)]. inRange 2020 None r) \<and>
   postAvg [score 2015 (Some 1), score 2016 (Some 2), score 2017 (Some 3), score 2018 (Some 4),
           score 2019 (Some 5)] = None \<and>
   drawCovidComparison [score 2015 (Some 1), score 2016 (Some 2), score 2017 (Some 3),
           score 2018 (Some 4), score 2019 (Some 5)] = Bars [(PreCovid, 3)] \<and>
   drawCovidComparison [score 2014 (Some 1), score 2021 None] = NoData"
  using period_average [of "[score 2015 (Some 1), score 2016 (Some 2), score 2017 (Some 3),
           score 2018 (Some 4), score 2019 (Some 5)]" 2020 None]
    period_average [of "[score 2014 (Some 1), score 2021 None]" 2020 None]
  by (simp add: spec_periodAverage_def inRange_def score_def obs_def
        drawCovidComparison_def)

subsection \<open>The event history\<close>

lemma historyOf_mkBlock:
  "historyOf ev code y =
     (case ev code of
        None \<Rightarrow> NoEventsNote
      | Some obj \<Rightarrow>
          Blocks (map (mkBlock y)
            (if filter (\<lambda>e. fst e \<le> y) (sort_key (\<lambda>e. - fst e) obj) \<noteq> []
             then filter (\<lambda>e. fst e \<le> y) (sort_key (\<lambda>e. - fst e) obj)
             else sort_key (\<lambda>e. - fst e) obj)))"
  by (simp add: historyOf_def Let_def split: option.splits)

lemma mkBlock_entry: "(blockYear (mkBlock y e), map fst (texts (mkBlock y e))) = e"
proof -
  have "map (fst \<circ> (\<lambda>(i, txt). (txt, fst e = y \<and> i = 0))) (enumerate 0 (snd e))
        = map snd (enumerate 0 (snd e))"
    by (rule map_cong) auto
  then show ?thesis by (simp add: mkBlock_def)
qed

lemma mkBlock_entries: "map (\<lambda>b. (blockYear b, map fst (texts b))) (map (mkBlock y) es) = es"
  by (induction es) (simp_all add: mkBlock_entry)

lemma mkBlock_flags:
  "active (mkBlock y e) = (blockYear (mkBlock y e) = y) \<and>
   (\<forall>i<length (texts (mkBlock y e)).
       snd (texts (mkBlock y e) ! i) = (active (mkBlock y e) \<and> i = 0))"
  by (simp add: mkBlock_def nth_enumerate_eq)

lemma sorted_desc:
  "sorted (map (\<lambda>e. - fst e) (es :: (int \<times> 'a) list)) \<Longrightarrow> sorted (rev (map fst es))"
  by (simp add: sorted_wrt_rev sorted_wrt_map sorted_map)

lemma shown_sorted:
  fixes obj :: "(int \<times> 'a) list"
  shows "sorted (rev (map fst
           (if filter (\<lambda>e. fst e \<le> y) (sort_key (\<lambda>e. - fst e) obj) \<noteq> []
            then filter (\<lambda>e. fst e \<le> y) (sort_key (\<lambda>e. - fst e) obj)
            else sort_key (\<lambda>e. - fst e) obj)))"
proof -
  have s: "sorted (map (\<lambda>e. - fst e) (sort_key (\<lambda>e. - fst e) obj))" by simp
  then have "sorted (map (\<lambda>e. - fst e) (filter (\<lambda>e. fst e \<le> y) (sort_key (\<lambda>e. - fst e) obj)))"
    by (rule sorted_filter)
  with s show ?thesis by (auto intro: sorted_desc)
qed

text \<open>
  The history block. It is the note exactly when the event log has no object for the code.
  Otherwise it lists the entries of the object in descending order of the year, only those
  up to the active year when there is one, and all of them when there is none; a block is
  active exactly when its year is the active year, and a text is the headline exactly when
  it is the first text of an active block.
\<close>

theorem history_visible_events:
  "(historyOf ev code y = NoEventsNote \<longleftrightarrow> ev code = None) \<and>
   (\<forall>obj. ev code = Some obj \<longrightarrow>
      (\<exists>bs. historyOf ev code y = Blocks bs \<and>
         map (\<lambda>b. (blockYear b, map fst (texts b))) bs =
           (if \<exists>e\<in>set obj. fst e \<le> y
            then filter (\<lambda>e. fst e \<le> y) (sort_key (\<lambda>e. - fst e) obj)
            else sort_key (\<lambda>e. - fst e) obj) \<and>
         sorted (rev (map blockYear bs)) \<and>
         (\<forall>b\<in>set bs. active b = (blockYear b = y) \<and>
            (\<forall>i<length (texts b). snd (texts b ! i) = (active b \<and> i = 0)))))"
proof (intro conjI allI impI)
  show "historyOf ev code y = NoEventsNote \<longleftrightarrow> ev code = None"
    by (simp add: historyOf_mkBlock split: option.splits)
next
  fix obj assume obj: "ev code = Some obj"
  let ?entries = "sort_key (\<lambda>e. - fst e) obj"
  let ?upTo = "filter (\<lambda>e. fst e \<le> y) ?entries"
  let ?shown = "if ?upTo \<noteq> [] then ?upTo else ?entries"
  let ?bs = "map (mkBlock y) ?shown"
  have c: "(?upTo \<noteq> []) = (\<exists>e\<in>set obj. fst e \<le> y)"
    by (auto simp: filter_empty_conv)
  have 1: "historyOf ev code y = Blocks ?bs"
    using obj by (simp add: historyOf_mkBlock)
  have 2: "map (\<lambda>b. (blockYear b, map fst (texts b))) ?bs =
           (if \<exists>e\<in>set obj. fst e \<le> y then ?upTo else ?entries)"
    unfolding mkBlock_entries c ..
  have "blockYear \<circ> mkBlock y = fst"
    by (auto simp: mkBlock_def fun_eq_iff)
  then have "map blockYear ?bs = map fst ?shown"
    by (simp only: map_map)
  then have 3: "sorted (rev (map blockYear ?bs))"
    using shown_sorted [of y obj] by (simp only:)
  have 4: "\<forall>b\<in>set ?bs. active b = (blockYear b = y) \<and>
            (\<forall>i<length (texts b). snd (texts b ! i) = (active b \<and> i = 0))"
    using mkBlock_flags by (auto simp del: mkBlock_def)
  from 1 2 3 4
  show "\<exists>bs. historyOf ev code y = Blocks bs \<and>
         map (\<lambda>b. (blockYear b, map fst (texts b))) bs =
           (if \<exists>e\<in>set obj. fst e \<le> y
            then filter (\<lambda>e. fst e \<le> y) (sort_key (\<lambda>e. - fst e) obj)
            else sort_key (\<lambda>e. - fst e) obj) \<and>
         sorted (rev (map blockYear bs)) \<and>
         (\<forall>b\<in>set bs. active b = (blockYear b = y) \<and>
            (\<forall>i<length (texts b). snd (texts b ! i) = (active b \<and> i = 0)))"
    by blast
qed

theorem history_visible_events_witness:
  "historyOf exEvents (utf16 ''AUT'') 2012 =
     Blocks [\<lparr> blockYear = 2010, active = False,
               texts = [(utf16 ''a'', False), (utf16 ''b'', False)] \<rparr>] \<and>
   historyOf exEvents (utf16 ''AUT'') 2005 =
     Blocks [\<lparr> blockYear = 2020, active = False, texts = [(utf16 ''d'', False)] \<rparr>,
             \<lparr> blockYear = 2015, active = False, texts = [(utf16 ''c'', False)] \<rparr>,
             \<lparr> blockYear = 2010, active = False,
               texts = [(utf16 ''a'', False), (utf16 ''b'', False)] \<rparr>] \<and>
   historyOf exEvents (utf16 ''AUT'') 2010 =
     Blocks [\<lparr> blockYear = 2010, active = True,
               texts = [(utf16 ''a'', True), (utf16 ''b'', False)] \<rparr>] \<and>
   historyOf exEvents (utf16 ''FRA'') 2012 = NoEventsNote"
  using history_visible_events [of exEvents "utf16 ''AUT''" 2012]
    history_visible_events [of exEvents "utf16 ''FRA''" 2012]
  by (simp add: exEvents_def historyOf_def mkBlock_def utf16_def)

text \<open>
  C5 at an event log that holds an empty object for Austria: the country has no entry at
  all, the click listener proceeds without an exception, and the history block is left
  empty, without the note that a country absent from the log gets.
\<close>

theorem history_empty_object_blank:
  "eventsData emptyObjectEnv (utf16 ''AUT'') = Some [] \<and>
   fst (clickCountry emptyObjectEnv austria view0) = None \<and>
   history (detail (snd (clickCountry emptyObjectEnv austria view0))) = Blocks [] \<and>
   eventsData exEnv (utf16 ''AUT'') = None \<and>
   history (detail (snd (clickCountry exEnv austria view0))) = NoEventsNote"
  by (simp add: emptyObjectEnv_def clickCountry_def showCountryPanel_def exEnv_byISO
        exEnv_events d3_group_def austria_def obs_def utf16_def view0_def panel0_def
        sortedRows_def pickRow_def historyOf_def mkBlock_def Let_def)

subsection \<open>The map and the two triggers\<close>

lemma map_of_rev_last:
  "map_of (rev ps) k =
     (if filter (\<lambda>p. fst p = k) ps = [] then None
      else Some (snd (last (filter (\<lambda>p. fst p = k) ps))))"
  by (induction ps rule: rev_induct) auto

lemma yearData_eq:
  "yearData rs y k =
     (if filter (\<lambda>d. year d = y \<and> iso3 d = k) rs = [] then None
      else Some (rank (last (filter (\<lambda>d. year d = y \<and> iso3 d = k) rs))))"
proof -
  have f: "filter (\<lambda>p. fst p = k) (map (\<lambda>d. (iso3 d, rank d)) (filter (\<lambda>d. year d = y) rs))
        = map (\<lambda>d. (iso3 d, rank d)) (filter (\<lambda>d. year d = y \<and> iso3 d = k) rs)"
    by (simp add: filter_map comp_def)
  show ?thesis
    unfolding yearData_def map_of_rev_last f
    by (simp add: last_map)
qed

lemma showCountryPanel_frame:
  "snd (showCountryPanel e c nm s) = s\<lparr>detail := detail (snd (showCountryPanel e c nm s))\<rparr>"
  by (simp add: showCountryPanel_def Let_def split: option.splits)

lemma showCountryPanel_fields:
  "sliderValue (snd (showCountryPanel e c nm s)) = sliderValue s"
  "selectedISO (snd (showCountryPanel e c nm s)) = selectedISO s"
  "mapFills (snd (showCountryPanel e c nm s)) = mapFills s"
  "yearLabel (snd (showCountryPanel e c nm s)) = yearLabel s"
  by (subst showCountryPanel_frame, simp)+

text \<open>
  C8. The slider listener leaves the slider at the new year and does not change the
  selected code; the click listener sets the selected code to the code of the clicked feature
  and does not change the slider's year.
\<close>

theorem triggers_frame:
  "sliderValue (snd (sliderInput e v s)) = v \<and>
   selectedISO (snd (sliderInput e v s)) = selectedISO s \<and>
   selectedISO (snd (clickCountry e d s)) = iso_a3 d \<and>
   sliderValue (snd (clickCountry e d s)) = sliderValue s"
  by (simp add: sliderInput_def clickCountry_def Let_def showCountryPanel_fields)

theorem triggers_frame_witness:
  "sliderValue (snd (sliderInput exEnv 2015 view0)) = 2015 \<and>
   selectedISO (snd (sliderInput exEnv 2015 view0)) = None \<and>
   selectedISO (snd (clickCountry exEnv austria view0)) = Some (utf16 ''AUT'') \<and>
   sliderValue (snd (clickCountry exEnv austria view0)) = 2016"
  using triggers_frame [of exEnv 2015 view0 austria]
  by (simp add: view0_def austria_def)

text \<open>
  C1, as the code has it. The slider listener replaces the fills by \<open>drawMap\<close> at the new year;
  the click listener leaves the fills as they are. \<open>drawMap\<close> gives one fill for each feature:
  the colour of the rank of the last retained observation whose year is exactly the drawn
  year and whose code is the feature's code, when there is such an observation and its rank
  is not zero, and the neutral fill otherwise.
\<close>

theorem map_fill_exact_year:
  "mapFills (snd (sliderInput e v s)) = drawMap e v \<and>
   mapFills (snd (clickCountry e d s)) = mapFills s \<and>
   length (drawMap e y) = length (worldData e) \<and>
   (\<forall>i < length (worldData e).
      drawMap e y ! i =
        (let ms = filter (\<lambda>d. year d = y \<and> iso3 d = iso_a3 (worldData e ! i)) (happinessData e)
         in if ms \<noteq> [] \<and> rank (last ms) \<noteq> 0 then ColorScale (rank (last ms)) else Neutral))"
  by (simp add: sliderInput_def clickCountry_def Let_def showCountryPanel_fields
        drawMap_def fillOf_def yearData_eq)

theorem map_fill_exact_year_witness:
  "0 < length (worldData exEnv) \<and>
   drawMap exEnv 2015 ! 0 = ColorScale 5 \<and> drawMap exEnv 2016 ! 0 = Neutral \<and>
   mapFills (snd (sliderInput exEnv 2015 view0)) = drawMap exEnv 2015 \<and>
   mapFills (snd (clickCountry exEnv austria view0)) = mapFills view0"
proof -
  have len: "0 < length (worldData exEnv)" by (simp add: exEnv_world)
  note a = map_fill_exact_year [of exEnv 2015 view0 austria 2015]
  note b = map_fill_exact_year [of exEnv 2015 view0 austria 2016]
  from a len have "drawMap exEnv 2015 ! 0 = ColorScale 5"
    by (simp add: exEnv_world exEnv_rows austria_def obs_def utf16_def)
  moreover from b len have "drawMap exEnv 2016 ! 0 = Neutral"
    by (simp add: exEnv_world exEnv_rows austria_def obs_def utf16_def)
  ultimately show ?thesis using a len by simp
qed

text \<open>
  C1 as stated fails for a country whose only observation is of 2015, drawn at 2016: the row
  selection of the panel resolves the observation of 2015, and the map gives the country the
  neutral fill.
\<close>

theorem map_fill_fallback_counterexample:
  "byISO exEnv (iso_a3 austria) = Some [obs 2015] \<and>
   pickRow (sortedRows [obs 2015]) 2016 = Some (obs 2015) \<and>
   worldData exEnv = [austria, belgium] \<and>
   drawMap exEnv 2016 = [Neutral, Neutral]"
  by (simp add: exEnv_byISO exEnv_world exEnv_rows drawMap_def fillOf_def yearData_def
        d3_group_def pickRow_def sortedRows_def austria_def belgium_def obs_def utf16_def)

lemma showCountryPanel_guard:
  "\<not> truthy code \<or> byISO e code = None \<Longrightarrow> showCountryPanel e code nm s = (None, s)"
  by (auto simp: showCountryPanel_def truthy_def split: option.splits)

text \<open>
  C9, as the code has it. When the code of the clicked feature is absent or is not a key of
  the per-country index, the click listener throws nothing and changes the selected code
  only: the whole panel stays as it was. When the selected code is absent or not a key, the
  slider listener throws nothing and changes the slider's year, the year label and the map
  fills only.
\<close>

theorem selection_without_data:
  "(\<not> truthy (iso_a3 d) \<or> byISO e (iso_a3 d) = None \<longrightarrow>
      clickCountry e d s = (None, s\<lparr>selectedISO := iso_a3 d\<rparr>)) \<and>
   (\<not> truthy (selectedISO s) \<or> byISO e (selectedISO s) = None \<longrightarrow>
      sliderInput e v s =
        (None, s\<lparr>sliderValue := v, yearLabel := Some v, mapFills := drawMap e v\<rparr>))"
  by (auto simp: clickCountry_def sliderInput_def Let_def showCountryPanel_guard)

theorem selection_without_data_witness:
  "byISO exEnv (iso_a3 belgium) = None \<and>
   clickCountry exEnv belgium (snd (clickCountry exEnv austria view0)) =
     (None, (snd (clickCountry exEnv austria view0))\<lparr>selectedISO := iso_a3 belgium\<rparr>)"
proof -
  have h: "byISO exEnv (iso_a3 belgium) = None"
    by (simp add: exEnv_byISO d3_group_def belgium_def obs_def utf16_def)
  show ?thesis
    using h selection_without_data [of belgium exEnv "snd (clickCountry exEnv austria view0)"]
    by simp
qed

text \<open>
  C9 as stated fails when Belgium, which has a polygon and no observation, is clicked after
  Austria: nothing is thrown, the selected code is Belgium's, and the panel is still the
  panel of Austria, with Austria's title and Austria's observation in the sparkline.
\<close>

theorem stale_panel_counterexample:
  "byISO exEnv (iso_a3 belgium) = None \<and>
   fst (clickCountry exEnv belgium (snd (clickCountry exEnv austria view0))) = None \<and>
   selectedISO (snd (clickCountry exEnv belgium (snd (clickCountry exEnv austria view0))))
     = Some (utf16 ''BEL'') \<and>
   detail (snd (clickCountry exEnv belgium (snd (clickCountry exEnv austria view0))))
     = detail (snd (clickCountry exEnv austria view0)) \<and>
   title (detail (snd (clickCountry exEnv belgium (snd (clickCountry exEnv austria view0)))))
     = Some (utf16 ''Austria'') \<and>
   sparkDot (detail (snd (clickCountry exEnv belgium (snd (clickCountry exEnv austria view0)))))
     = Some (obs 2015)"
  by (simp add: clickCountry_def showCountryPanel_def exEnv_byISO d3_group_def
        belgium_def austria_def obs_def utf16_def view0_def panel0_def sortedRows_def
        pickRow_def Let_def)

end
